theory Spec2Isabelle
  imports Complex_Main "HOL-Library.AList" "HOL-Library.Sublist" "HOL-Library.Log_Nat"
    "HOL-Library.Multiset"
begin

section \<open>Shared vocabulary\<close>

text \<open>
  Python dictionaries are association lists handled with \<open>AList.update\<close> (overwrite in
  place, append a new key) and \<open>AList.delete\<close>, which is the insertion-ordered behaviour
  of \<open>dict\<close>. Exceptions are values of \<open>error\<close>. Prices and capital (\<open>Decimal\<close>, or
  numbers produced by classes that are not among the source files) are exact rationals.
\<close>

datatype error =
    TypeError | ValueError | KeyError | AttributeError | OverflowError | RuntimeError error

text \<open>\<open>observer/base.py\<close>: the event types of the bus.\<close>

datatype EventType =
    MARKET_DATA | ORDER_BOOK | SIGNAL | ORDER_CREATED | TRADE_EXECUTED | EOD_EVENT
  | POSITION_UPDATE | ORDER_UPDATE | ACCOUNT_UPDATE | EQUITY_VALUE_UPDATE | RISK_UPDATE
  | TRADE_UPDATE | TRADE_COMMISSION_UPDATE

definition has_key :: "('k \<times> 'v) list \<Rightarrow> 'k \<Rightarrow> bool" where
  "has_key d k = (map_of d k \<noteq> None)"

section \<open>Portfolio server (\<open>portfolio_server.py\<close>)\<close>

text \<open>
  Modelled from the spec: the declarations of \<open>Position\<close>, \<open>Account\<close>, \<open>ActiveOrder\<close> and
  \<open>Contract\<close> are missing from the source files. A position is a signed quantity and a
  cost basis, an account its capital, a contract its symbol: what the data model names
  and the server reads. \<open>ActiveOrder\<close> is a typed dictionary; its keys \<open>orderId\<close>,
  \<open>symbol\<close> and \<open>status\<close>, the ones the server looks up, are fields, and every other
  key lives in \<open>extra\<close>.
\<close>

record Position =
  pos_quantity :: rat
  avg_cost :: rat

record Account =
  capital :: rat

record ActiveOrder =
  orderId :: int
  symbol :: string
  status :: string
  extra :: "(string \<times> string) list"

record Contract =
  contract_symbol :: string

text \<open>
  The server's attributes. \<open>account\<close> is only annotated in \<open>__init__\<close>, so it is absent until
  \<open>update_account_details\<close> assigns it. \<open>notified\<close> records every call of \<open>Subject.notify\<close>
  in order; the handlers of the attached observers are not part of the server.
\<close>

record PortfolioServer =
  account :: "Account option"
  positions :: "(string \<times> Position) list"
  active_orders :: "(int \<times> ActiveOrder) list"
  pending_positions_update :: "string set"
  notified :: "EventType list"

definition PortfolioServer_init :: PortfolioServer where
  "PortfolioServer_init =
     \<lparr>account = None, positions = [], active_orders = [],
      pending_positions_update = {}, notified = []\<rparr>"

definition notify :: "EventType \<Rightarrow> PortfolioServer \<Rightarrow> PortfolioServer" where
  "notify ev s = s\<lparr>notified := notified s @ [ev]\<rparr>"

text \<open>The \<open>capital\<close> property: \<open>self.account.capital\<close>.\<close>

definition server_capital :: "PortfolioServer \<Rightarrow> error + rat" where
  "server_capital s = (case account s of None \<Rightarrow> Inl AttributeError | Some a \<Rightarrow> Inr (capital a))"

text \<open>\<open>get_active_order_tickers\<close>: the result is built through \<open>set\<close>, so it is a set.\<close>

definition get_active_order_tickers :: "PortfolioServer \<Rightarrow> string set" where
  "get_active_order_tickers s =
     set (map (\<lambda>(i, order). symbol order) (active_orders s)) \<union> pending_positions_update s"

text \<open>
  \<open>update_positions\<close>, branch by branch: the outer test is on the key alone; with the key
  present a zero quantity deletes and anything else returns at once; with the key absent
  the incoming position is stored. Only the paths that do not return early reach the
  \<open>discard\<close> and the notification.
\<close>

definition update_positions :: "Contract \<Rightarrow> Position \<Rightarrow> PortfolioServer \<Rightarrow> PortfolioServer" where
  "update_positions contract new_position s =
     (let k = contract_symbol contract;
          finish = (\<lambda>s'. notify POSITION_UPDATE
                      (s'\<lparr>pending_positions_update := pending_positions_update s' - {k}\<rparr>))
      in if has_key (positions s) k then
           (if pos_quantity new_position = 0
            then finish (s\<lparr>positions := AList.delete k (positions s)\<rparr>)
            else s)
         else finish (s\<lparr>positions := AList.update k new_position (positions s)\<rparr>))"

text \<open>\<open>dict.update\<close> of one active order by another: every key of the incoming one wins.\<close>

definition merge_order :: "ActiveOrder \<Rightarrow> ActiveOrder \<Rightarrow> ActiveOrder" where
  "merge_order old new =
     new\<lparr>extra := foldl (\<lambda>d (k, v). AList.update k v d) (extra old) (extra new)\<rparr>"

definition update_orders :: "ActiveOrder \<Rightarrow> PortfolioServer \<Rightarrow> PortfolioServer" where
  "update_orders order s =
     notify ORDER_UPDATE
       (if status order = ''Cancelled'' \<and> has_key (active_orders s) (orderId order) then
          s\<lparr>active_orders := AList.delete (orderId order) (active_orders s)\<rparr>
        else if status order = ''Filled'' \<and> has_key (active_orders s) (orderId order) then
          s\<lparr>pending_positions_update := insert (symbol order) (pending_positions_update s),
            active_orders := AList.delete (orderId order) (active_orders s)\<rparr>
        else if status order \<noteq> ''Cancelled'' \<and> status order \<noteq> ''Filled'' then
          (case map_of (active_orders s) (orderId order) of
             None \<Rightarrow> s\<lparr>active_orders := AList.update (orderId order) order (active_orders s)\<rparr>
           | Some old \<Rightarrow>
               s\<lparr>active_orders :=
                   AList.update (orderId order) (merge_order old order) (active_orders s)\<rparr>)
        else s)"


section \<open>Orders (\<open>orders.py\<close>)\<close>

datatype Action = LONG | COVER | SHORT | SELL

fun to_broker_standard :: "Action \<Rightarrow> string" where
  "to_broker_standard LONG = ''BUY''"
| "to_broker_standard COVER = ''BUY''"
| "to_broker_standard SHORT = ''SELL''"
| "to_broker_standard SELL = ''SELL''"

datatype OrderType = MARKET | LIMIT | STOPLOSS

fun OrderType_value :: "OrderType \<Rightarrow> string" where
  "OrderType_value MARKET = ''MKT''"
| "OrderType_value LIMIT = ''LMT''"
| "OrderType_value STOPLOSS = ''STP''"

text \<open>
  A number as the constructors accept it: an \<open>int\<close> or a \<open>float\<close>, that is a finite value,
  an infinity or NaN. On these the constructors use \<open>== 0\<close>, \<open><= 0\<close> and \<open>abs\<close>, and the
  \<open>quantity\<close> property the unary minus; every comparison with NaN is false, and \<open>abs\<close>
  and the minus of NaN are NaN. \<open>gt_zero\<close> is \<open>> 0\<close>, for the statements below.
\<close>

datatype number = Fin rat | PosInf | NegInf | NaN

fun is_zero :: "number \<Rightarrow> bool" where
  "is_zero (Fin r) = (r = 0)"
| "is_zero _ = False"



fun number_abs :: "number \<Rightarrow> number" where
  "number_abs (Fin r) = Fin \<bar>r\<bar>"
| "number_abs PosInf = PosInf"
| "number_abs NegInf = PosInf"
| "number_abs NaN = NaN"

fun number_neg :: "number \<Rightarrow> number" where
  "number_neg (Fin r) = Fin (- r)"
| "number_neg PosInf = NegInf"
| "number_neg NegInf = PosInf"
| "number_neg NaN = NaN"

text \<open>
  The constructors check their arguments with \<open>isinstance\<close>, so an argument is a
  dynamically typed value: a number, a member of one of the two enums, or something
  else.
\<close>

datatype pyval = Num number | ActionV Action | OrderTypeV OrderType | Str string | NoneV

text \<open>The broker's \<open>Order\<close> object; \<open>lmtPrice\<close> and \<open>auxPrice\<close> stay unset unless assigned.\<close>

record Order =
  order_action :: string
  orderType :: string
  totalQuantity :: number
  lmtPrice :: "number option"
  auxPrice :: "number option"

record BaseOrder =
  order :: Order

fun BaseOrder_init :: "pyval \<Rightarrow> pyval \<Rightarrow> pyval \<Rightarrow> error + BaseOrder" where
  "BaseOrder_init (ActionV action) (Num quantity) (OrderTypeV order_type) =
     (let broker_action = to_broker_standard action
      in if is_zero quantity then Inl ValueError
         else Inr \<lparr>order = \<lparr>order_action = broker_action,
                              orderType = OrderType_value order_type,
                              totalQuantity = number_abs quantity,
                              lmtPrice = None, auxPrice = None\<rparr>\<rparr>)"
| "BaseOrder_init _ _ _ = Inl TypeError"

text \<open>The \<open>quantity\<close> property.\<close>

definition order_quantity :: "BaseOrder \<Rightarrow> number" where
  "order_quantity b =
     (if order_action (order b) = ''BUY'' then totalQuantity (order b)
      else number_neg (totalQuantity (order b)))"

definition MarketOrder :: "pyval \<Rightarrow> pyval \<Rightarrow> error + BaseOrder" where
  "MarketOrder action quantity = BaseOrder_init action quantity (OrderTypeV MARKET)"



section \<open>Order execution manager (\<open>order_manager.py\<close>)\<close>

text \<open>
  Modelled from the spec: the declarations of \<open>Symbol\<close>, \<open>SignalInstruction\<close>,
  \<open>SignalEvent\<close>, \<open>OrderEvent\<close> and \<open>OrderBook\<close> are missing from the source files. The
  records have the fields the data model names and the manager reads. What these classes
  compute is left open: a symbol carries its \<open>cost\<close> method as a function of the signed
  order quantity and the price, the order book is its \<open>retrieve\<close> method, and the two
  missing pieces that can raise are parameters of the manager's functions: \<open>to_order\<close>,
  the instruction's own conversion, and \<open>post_init\<close>, the validation an \<open>OrderEvent\<close> runs
  on construction (\<open>None\<close> when it accepts).
\<close>

record Symbol =
  instrument_id :: int
  contract :: Contract
  cost :: "number \<Rightarrow> rat \<Rightarrow> rat"

record SignalInstruction =
  instrument :: string
  action :: Action
  trade_id :: int
  leg_id :: int
  weight :: rat
  quantity :: rat

record SignalEvent =
  sig_timestamp :: int
  instructions :: "SignalInstruction list"

datatype event = Signal SignalEvent | NotASignal

text \<open>
  One record for the \<open>order_details\<close> dictionary and for the \<open>OrderEvent\<close> built from it:
  both have the same six entries.
\<close>

record OrderEvent =
  ev_timestamp :: int
  ev_trade_id :: int
  ev_leg_id :: int
  ev_action :: Action
  ev_contract :: Contract
  ev_order :: BaseOrder

record OrderExecutionManager =
  symbols_map :: "(string \<times> Symbol) list"
  retrieve :: "int \<Rightarrow> rat"
  portfolio_server :: PortfolioServer
  published :: "(EventType \<times> OrderEvent) list"

text \<open>\<open>_create_order\<close>: a \<open>ValueError\<close> or \<open>TypeError\<close> of the conversion is re-raised as a
  \<open>RuntimeError\<close>; anything else passes through.\<close>

definition create_order ::
  "(SignalInstruction \<Rightarrow> error + BaseOrder) \<Rightarrow> SignalInstruction \<Rightarrow> error + BaseOrder" where
  "create_order to_order trade_instruction =
     (case to_order trade_instruction of
        Inr b \<Rightarrow> Inr b
      | Inl ValueError \<Rightarrow> Inl (RuntimeError ValueError)
      | Inl TypeError \<Rightarrow> Inl (RuntimeError TypeError)
      | Inl e \<Rightarrow> Inl e)"

text \<open>
  \<open>_set_order\<close>: build the event, publish it; every exception is re-raised as a
  \<open>RuntimeError\<close>. The result is the exception, if any, and the manager afterwards.
\<close>

definition set_order ::
  "(OrderEvent \<Rightarrow> error option) \<Rightarrow> OrderEvent \<Rightarrow> OrderExecutionManager
     \<Rightarrow> error option \<times> OrderExecutionManager" where
  "set_order post_init order_event m =
     (case post_init order_event of
        Some e \<Rightarrow> (Some (RuntimeError e), m)
      | None \<Rightarrow> (None, m\<lparr>published := published m @ [(ORDER_CREATED, order_event)]\<rparr>))"

text \<open>
  The body of the first loop of \<open>_handle_signal\<close>: the \<open>order_details\<close> entry of one
  instruction and its cost. The cost is taken on the order's signed quantity.
\<close>

definition order_details ::
  "(SignalInstruction \<Rightarrow> error + BaseOrder) \<Rightarrow> OrderExecutionManager \<Rightarrow> int
     \<Rightarrow> SignalInstruction \<Rightarrow> error + (OrderEvent \<times> rat)" where
  "order_details to_order m timestamp trade =
     (case map_of (symbols_map m) (instrument trade) of
        None \<Rightarrow> Inl KeyError
      | Some smb \<Rightarrow>
          (case create_order to_order trade of
             Inl e \<Rightarrow> Inl e
           | Inr ord \<Rightarrow>
               (let current_price = retrieve m (instrument_id smb);
                    order_cost = cost smb (order_quantity ord) current_price
                in Inr (\<lparr>ev_timestamp = timestamp, ev_trade_id = trade_id trade,
                         ev_leg_id = leg_id trade, ev_action = action trade,
                         ev_contract = contract smb, ev_order = ord\<rparr>, order_cost))))"

text \<open>
  The first loop: the entries in order and the running total of the costs. It publishes
  nothing, so an exception in it leaves the manager as it was.
\<close>

fun build_orders ::
  "(SignalInstruction \<Rightarrow> error + BaseOrder) \<Rightarrow> OrderExecutionManager \<Rightarrow> int
     \<Rightarrow> SignalInstruction list \<Rightarrow> OrderEvent list \<times> rat \<Rightarrow> error + (OrderEvent list \<times> rat)" where
  "build_orders to_order m timestamp [] (orders, total_capital_required) =
     Inr (orders, total_capital_required)"
| "build_orders to_order m timestamp (trade # rest) (orders, total_capital_required) =
     (case order_details to_order m timestamp trade of
        Inl e \<Rightarrow> Inl e
      | Inr (od, order_cost) \<Rightarrow>
          build_orders to_order m timestamp rest
            (orders @ [od], total_capital_required + order_cost))"

text \<open>
  The second loop. \<open>or\<close> short-circuits, so the capital is read only for an entry action;
  reading it raises while no account has been set. An exception ends the loop and keeps
  what was published before it.
\<close>

fun emit_orders ::
  "(OrderEvent \<Rightarrow> error option) \<Rightarrow> rat \<Rightarrow> OrderEvent list \<Rightarrow> OrderExecutionManager
     \<Rightarrow> error option \<times> OrderExecutionManager" where
  "emit_orders post_init total_capital_required [] m = (None, m)"
| "emit_orders post_init total_capital_required (od # rest) m =
     (if ev_action od \<in> {SELL, COVER} then
        (case set_order post_init od m of
           (Some e, m') \<Rightarrow> (Some e, m')
         | (None, m') \<Rightarrow> emit_orders post_init total_capital_required rest m')
      else
        (case server_capital (portfolio_server m) of
           Inl e \<Rightarrow> (Some e, m)
         | Inr available \<Rightarrow>
             if total_capital_required \<le> available then
               (case set_order post_init od m of
                  (Some e, m') \<Rightarrow> (Some e, m')
                | (None, m') \<Rightarrow> emit_orders post_init total_capital_required rest m')
             else emit_orders post_init total_capital_required rest m))"

definition handle_signal ::
  "(SignalInstruction \<Rightarrow> error + BaseOrder) \<Rightarrow> (OrderEvent \<Rightarrow> error option) \<Rightarrow> int
     \<Rightarrow> SignalInstruction list \<Rightarrow> OrderExecutionManager
     \<Rightarrow> error option \<times> OrderExecutionManager" where
  "handle_signal to_order post_init timestamp trade_instructions m =
     (case build_orders to_order m timestamp trade_instructions ([], 0) of
        Inl e \<Rightarrow> (Some e, m)
      | Inr (orders, total_capital_required) \<Rightarrow>
          emit_orders post_init total_capital_required orders m)"

definition handle_event ::
  "(SignalInstruction \<Rightarrow> error + BaseOrder) \<Rightarrow> (OrderEvent \<Rightarrow> error option)
     \<Rightarrow> EventType \<Rightarrow> event \<Rightarrow> OrderExecutionManager
     \<Rightarrow> error option \<times> OrderExecutionManager" where
  "handle_event to_order post_init event_type ev m =
     (if event_type = SIGNAL then
        (case ev of
           NotASignal \<Rightarrow> (Some TypeError, m)
         | Signal e \<Rightarrow>
             (let trade_instructions = instructions e;
                  timestamp = sig_timestamp e;
                  active_orders_tickers = get_active_order_tickers (portfolio_server m)
              in if list_ex (\<lambda>trade. instrument trade \<in> active_orders_tickers) trade_instructions
                 then (None, m)
                 else handle_signal to_order post_init timestamp trade_instructions m))
      else (None, m))"


section \<open>Market data clock (\<open>data_client.py\<close>)\<close>

text \<open>
  A row of the data frame. \<open>_process_bardata\<close> casts the timestamp and the volume to
  \<open>uint64\<close> and sorts by timestamp. The cast wraps a negative 64-bit value around and
  raises \<open>OverflowError\<close> on a value that fits neither \<open>int64\<close> nor \<open>uint64\<close>.
  \<open>sort_values\<close> of pandas is a parameter: its default algorithm is not stable, so
  nothing is known of it but that it sorts (\<open>sorts_by_timestamp\<close>).
\<close>

record Row =
  row_timestamp :: int
  row_symbol :: string
  row_open :: rat
  row_high :: rat
  row_low :: rat
  row_close :: rat
  row_volume :: int






text \<open>
  Lines 141 and 142 take the day of a timestamp through floating point:
  \<open>unix_to_iso\<close> divides the integer by \<open>1e9\<close> and \<open>datetime.fromtimestamp\<close> rounds the
  quotient to microseconds. A double is a rational here. \<open>to_double\<close> is the nearest
  double, ties to the even significand of 53 bits, \<open>ilog2\<close> giving the binary exponent of
  a positive number; the exponent range is not bounded, and no timestamp below \<open>2 ^ 64\<close>
  comes near its ends.
\<close>

definition ilog2 :: "rat \<Rightarrow> int" where
  "ilog2 x = (if 1 \<le> x then bitlen \<lfloor>x\<rfloor> - 1 else - bitlen (\<lceil>1 / x\<rceil> - 1))"

definition round_half_even :: "rat \<Rightarrow> int" where
  "round_half_even x =
     (let f = \<lfloor>x\<rfloor>; r = x - of_int f
      in if r < 1 / 2 then f else if 1 / 2 < r then f + 1 else if even f then f else f + 1)"

definition to_double :: "rat \<Rightarrow> rat" where
  "to_double x =
     (if x = 0 then 0
      else let e = ilog2 \<bar>x\<bar> - 52
           in sgn x * of_int (round_half_even (\<bar>x\<bar> / 2 powi e)) * 2 powi e)"

text \<open>
  \<open>datetime.fromtimestamp\<close> on a float of seconds, as whole seconds and microseconds
  since the epoch: the integral and the fractional part are taken apart (\<open>modf\<close>), the
  fraction is multiplied by \<open>1e6\<close> and rounded half to even, and a result of a full
  second is carried over.
\<close>

definition fromtimestamp :: "rat \<Rightarrow> int \<times> int" where
  "fromtimestamp d =
     (let intpart = (if 0 \<le> d then \<lfloor>d\<rfloor> else \<lceil>d\<rceil>);
          floatpart = round_half_even (to_double ((d - of_int intpart) * 1000000))
      in if floatpart \<ge> 1000000 then (intpart + 1, floatpart - 1000000)
         else if floatpart < 0 then (intpart - 1, floatpart + 1000000)
         else (intpart, floatpart))"

text \<open>\<open>unix_to_iso\<close> with the default time zone: the UTC date and time of the timestamp.
  The integer becomes a double before it is divided.\<close>

definition unix_to_iso :: "int \<Rightarrow> int \<times> int" where
  "unix_to_iso unix_timestamp =
     fromtimestamp (to_double (to_double (of_int unix_timestamp) / 1000000000))"

text \<open>\<open>parser.parse(iso).date()\<close>: the date, as the number of the day since the epoch.\<close>

definition unix_to_day :: "int \<Rightarrow> int" where
  "unix_to_day unix_timestamp = fst (unix_to_iso unix_timestamp) div 86400"

text \<open>
  Modelled from the spec: the declaration of \<open>BarData\<close> is missing from the source
  files. Its fields are the keyword arguments \<open>_set_market_data\<close> gives it.
\<close>

record BarData =
  ticker :: string
  bar_timestamp :: int
  bar_open :: rat
  bar_high :: rat
  bar_low :: rat
  bar_close :: rat
  bar_volume :: int

text \<open>
  What sits on the event queue: the end-of-day event of the clock, with its date, or an
  event of another producer. What the clock hands out, in the order it does so: an event
  put on the queue, or a batch passed to \<open>order_book.update_market_data\<close> with its
  timestamp.
\<close>

datatype queued = EODEvent int | Foreign

datatype emission = Queue_put queued | Update_market_data "(string \<times> BarData) list" int

text \<open>
  The clock. The flag and the queue are shared with the other threads; \<open>emitted\<close> is the
  history of the clock's own outputs, which the queue cannot be, since its consumer
  removes from it.
\<close>

record DataClient =
  data :: "Row list"
  unique_timestamps :: "int list"
  next_date :: "int option"
  current_date_index :: nat
  current_day :: "int option"
  eod_event_flag :: bool
  event_queue :: "queued list"
  emitted :: "emission list"


definition process_eod :: "int \<Rightarrow> DataClient \<Rightarrow> DataClient" where
  "process_eod day c =
     c\<lparr>event_queue := event_queue c @ [EODEvent day],
       emitted := emitted c @ [Queue_put (EODEvent day)]\<rparr>"

text \<open>
  \<open>_set_market_data\<close>. \<open>to_bar\<close> is the \<open>BarData\<close> built of a row. A \<open>BarData\<close> validates
  itself on construction; that validation is the parameter \<open>post_init\<close> (\<open>None\<close> when it
  accepts). A later row of the same ticker overwrites the earlier entry. The call of \<open>order_book.update_market_data\<close> is recorded
  in \<open>emitted\<close>; its timestamp is \<open>np.uint64(self.next_date)\<close>, which raises while
  \<open>next_date\<close> is still \<open>None\<close>.
\<close>

definition to_bar :: "Row \<Rightarrow> BarData" where
  "to_bar row =
     \<lparr>ticker = row_symbol row, bar_timestamp = row_timestamp row, bar_open = row_open row,
      bar_high = row_high row, bar_low = row_low row, bar_close = row_close row,
      bar_volume = row_volume row\<rparr>"

fun result_dict ::
  "(BarData \<Rightarrow> error option) \<Rightarrow> Row list \<Rightarrow> (string \<times> BarData) list
     \<Rightarrow> error + (string \<times> BarData) list" where
  "result_dict post_init [] d = Inr d"
| "result_dict post_init (row # rows) d =
     (case post_init (to_bar row) of
        Some e \<Rightarrow> Inl e
      | None \<Rightarrow> result_dict post_init rows (AList.update (row_symbol row) (to_bar row) d))"

definition get_latest_data :: "DataClient \<Rightarrow> Row list" where
  "get_latest_data c = filter (\<lambda>r. Some (row_timestamp r) = next_date c) (data c)"

definition set_market_data ::
  "(BarData \<Rightarrow> error option) \<Rightarrow> DataClient \<Rightarrow> error + DataClient" where
  "set_market_data post_init c =
     (case result_dict post_init (get_latest_data c) [] of
        Inl e \<Rightarrow> Inl e
      | Inr d \<Rightarrow>
          (case next_date c of
             None \<Rightarrow> Inl TypeError
           | Some nd \<Rightarrow> Inr (c\<lparr>emitted := emitted c @ [Update_market_data d nd]\<rparr>)))"

text \<open>
  The other threads act on the flag and on the queue only. What they do during one
  \<open>wait(timeout=0.1)\<close> of the clock is a list of such actions; what they do during a whole
  call of \<open>data_stream\<close> is a list of those, one per pass of the polling loop.
\<close>

datatype env_action = Flag_set | Flag_clear | Queue_get | Queue_put_by_other queued

fun env_step :: "env_action \<Rightarrow> DataClient \<Rightarrow> DataClient" where
  "env_step Flag_set c = c\<lparr>eod_event_flag := True\<rparr>"
| "env_step Flag_clear c = c\<lparr>eod_event_flag := False\<rparr>"
| "env_step Queue_get c = c\<lparr>event_queue := tl (event_queue c)\<rparr>"
| "env_step (Queue_put_by_other q) c = c\<lparr>event_queue := event_queue c @ [q]\<rparr>"

definition env_steps :: "env_action list \<Rightarrow> DataClient \<Rightarrow> DataClient" where
  "env_steps acts c = fold env_step acts c"

text \<open>
  The polling loop of \<open>data_stream\<close>. It ends with the flag found set, or returns from
  \<open>data_stream\<close> at once because the queue holds work. \<open>None\<close>: the loop is still polling
  when the other threads' recorded activity ends.
\<close>

datatype waited = Flag_open | Queue_busy

fun wait_loop :: "env_action list list \<Rightarrow> DataClient \<Rightarrow> (waited \<times> DataClient) option" where
  "wait_loop sched c =
     (if eod_event_flag c then Some (Flag_open, c)
      else case sched of
             [] \<Rightarrow> None
           | during_wait # later \<Rightarrow>
               (let c' = env_steps during_wait c
                in if event_queue c' \<noteq> [] then Some (Queue_busy, c')
                   else wait_loop later c'))"

text \<open>Lines 139 to 151 of \<open>data_stream\<close>: the state in which the polling loop starts.\<close>

definition enter_day :: "DataClient \<Rightarrow> DataClient" where
  "enter_day c =
     (let nd = unique_timestamps c ! current_date_index c;
          c1 = c\<lparr>next_date := Some nd\<rparr>;
          next_day = unix_to_day nd
      in if current_day c1 = None \<or> Some next_day \<noteq> current_day c1 then
           (case current_day c1 of
              Some d \<Rightarrow> process_eod d (c1\<lparr>eod_event_flag := False\<rparr>)
            | None \<Rightarrow> c1)\<lparr>current_day := Some next_day\<rparr>
         else c1)"

datatype outcome = Return bool | Raise error

definition data_stream ::
  "(BarData \<Rightarrow> error option) \<Rightarrow> env_action list list \<Rightarrow> DataClient
     \<Rightarrow> (outcome \<times> DataClient) option" where
  "data_stream post_init sched c =
     (if current_date_index c \<ge> length (unique_timestamps c) then Some (Return False, c)
      else case wait_loop sched (enter_day c) of
             None \<Rightarrow> None
           | Some (Queue_busy, c') \<Rightarrow> Some (Return True, c')
           | Some (Flag_open, c') \<Rightarrow>
               (case set_market_data post_init c' of
                  Inl e \<Rightarrow> Some (Raise e, c')
                | Inr c'' \<Rightarrow>
                    Some (Return True, c''\<lparr>current_date_index := current_date_index c'' + 1\<rparr>)))"



section \<open>What the clock is expected to hand out\<close>






text \<open>The part of the clock that only the clock writes.\<close>

definition owned ::
  "DataClient \<Rightarrow> Row list \<times> int list \<times> int option \<times> nat \<times> int option \<times> emission list" where
  "owned c =
     (data c, unique_timestamps c, next_date c, current_date_index c, current_day c, emitted c)"

text \<open>The clock after the other threads have acted during a number of waits.\<close>

definition after_waits :: "env_action list list \<Rightarrow> DataClient \<Rightarrow> DataClient" where
  "after_waits waits c = fold env_steps waits c"



section \<open>Concrete inputs\<close>

text \<open>
  Two instruments priced at 10 by the order book, an account with a capital of 100, a
  conversion that makes a market order of the instruction's action and quantity, and
  validations that accept everything.
\<close>

definition market_to_order :: "SignalInstruction \<Rightarrow> error + BaseOrder" where
  "market_to_order trade = MarketOrder (ActionV (action trade)) (Num (Fin (quantity trade)))"

definition accept_all :: "'a \<Rightarrow> error option" where
  "accept_all x = None"

definition demo_symbol :: "string \<Rightarrow> int \<Rightarrow> Symbol" where
  "demo_symbol name i =
     \<lparr>instrument_id = i, contract = \<lparr>contract_symbol = name\<rparr>,
      cost = (\<lambda>q price. case number_abs q of Fin r \<Rightarrow> r * price | _ \<Rightarrow> 0)\<rparr>"

definition demo_manager :: OrderExecutionManager where
  "demo_manager =
     \<lparr>symbols_map = [(''AAPL'', demo_symbol ''AAPL'' 1), (''MSFT'', demo_symbol ''MSFT'' 2)],
      retrieve = (\<lambda>i. 10),
      portfolio_server = PortfolioServer_init\<lparr>account := Some \<lparr>capital = 100\<rparr>\<rparr>,
      published = []\<rparr>"

definition long_aapl :: SignalInstruction where
  "long_aapl =
     \<lparr>instrument = ''AAPL'', action = LONG, trade_id = 1, leg_id = 1, weight = 1 / 2,
      quantity = 5\<rparr>"

definition sell_msft :: SignalInstruction where
  "sell_msft =
     \<lparr>instrument = ''MSFT'', action = SELL, trade_id = 1, leg_id = 2, weight = 1 / 2,
      quantity = 6\<rparr>"

definition demo_order :: "string \<Rightarrow> rat \<Rightarrow> BaseOrder" where
  "demo_order side q =
     \<lparr>order = \<lparr>order_action = side, orderType = ''MKT'', totalQuantity = Fin q,
               lmtPrice = None, auxPrice = None\<rparr>\<rparr>"

definition long_aapl_details :: OrderEvent where
  "long_aapl_details =
     \<lparr>ev_timestamp = 7, ev_trade_id = 1, ev_leg_id = 1, ev_action = LONG,
      ev_contract = \<lparr>contract_symbol = ''AAPL''\<rparr>, ev_order = demo_order ''BUY'' 5\<rparr>"

definition sell_msft_details :: OrderEvent where
  "sell_msft_details =
     \<lparr>ev_timestamp = 7, ev_trade_id = 1, ev_leg_id = 2, ev_action = SELL,
      ev_contract = \<lparr>contract_symbol = ''MSFT''\<rparr>, ev_order = demo_order ''SELL'' 6\<rparr>"

definition aapl :: Contract where
  "aapl = \<lparr>contract_symbol = ''AAPL''\<rparr>"

definition aapl_order :: "string \<Rightarrow> ActiveOrder" where
  "aapl_order st = \<lparr>orderId = 42, symbol = ''AAPL'', status = st, extra = []\<rparr>"

text \<open>A server that holds ten units of AAPL and still waits for a position update on it.\<close>

definition holding_aapl :: PortfolioServer where
  "holding_aapl =
     PortfolioServer_init
       \<lparr>positions := [(''AAPL'', \<lparr>pos_quantity = 10, avg_cost = 5\<rparr>)],
        pending_positions_update := {''AAPL''}\<rparr>"

text \<open>The same manager with every price at 5, and one whose server has an open order on AAPL.\<close>

definition cheap_manager :: OrderExecutionManager where
  "cheap_manager = demo_manager\<lparr>retrieve := (\<lambda>i. 5)\<rparr>"

definition busy_manager :: OrderExecutionManager where
  "busy_manager =
     demo_manager\<lparr>portfolio_server :=
       (portfolio_server demo_manager)\<lparr>active_orders := [(42, aapl_order ''Submitted'')]\<rparr>\<rparr>"

text \<open>Rows on two days, for a run of the clock; the validation of a bar that rejects a
  non-positive price, as the tests of \<open>BarData\<close> have it.\<close>

definition bar_row :: "int \<Rightarrow> string \<Rightarrow> Row" where
  "bar_row t s =
     \<lparr>row_timestamp = t, row_symbol = s, row_open = 10, row_high = 12, row_low = 9,
      row_close = 11, row_volume = 100\<rparr>"

definition bar_of :: "int \<Rightarrow> string \<Rightarrow> BarData" where
  "bar_of t s =
     \<lparr>ticker = s, bar_timestamp = t, bar_open = 10, bar_high = 12, bar_low = 9,
      bar_close = 11, bar_volume = 100\<rparr>"

definition positive_prices :: "BarData \<Rightarrow> error option" where
  "positive_prices b =
     (if bar_open b \<le> 0 \<or> bar_high b \<le> 0 \<or> bar_low b \<le> 0 \<or> bar_close b \<le> 0
      then Some ValueError else None)"

definition day1 :: int where
  "day1 = 86400000000000"

definition day2 :: int where
  "day2 = 172800000000000"



definition sorted_rows :: "Row list" where
  "sorted_rows = [bar_row day1 ''MSFT'', bar_row day1 ''AAPL'', bar_row day2 ''AAPL'']"

definition batch1 :: "(string \<times> BarData) list" where
  "batch1 = [(''MSFT'', bar_of day1 ''MSFT''), (''AAPL'', bar_of day1 ''AAPL'')]"


definition clock_at ::
  "int option \<Rightarrow> nat \<Rightarrow> int option \<Rightarrow> bool \<Rightarrow> queued list \<Rightarrow> emission list \<Rightarrow> DataClient" where
  "clock_at nd i cd flag queue out =
     \<lparr>data = sorted_rows, unique_timestamps = [day1, day2], next_date = nd,
      current_date_index = i, current_day = cd, eod_event_flag = flag,
      event_queue = queue, emitted = out\<rparr>"

text \<open>
  Timestamps next to midnight. \<open>before_midnight\<close> is the last nanosecond of 2 January
  1970 and \<open>one_o_clock\<close> is 01:00 on 3 January; \<open>day2\<close> is midnight of 3 January and
  \<open>last_of_day2\<close> the last nanosecond of that day. \<open>clock_on\<close> is the clock over a frame
  of one row for each of two timestamps.
\<close>

definition before_midnight :: int where
  "before_midnight = 172799999999999"

definition one_o_clock :: int where
  "one_o_clock = 176400000000000"

definition last_of_day2 :: int where
  "last_of_day2 = 259199999999999"


section \<open>Portfolio server: properties\<close>

lemma has_key_update: "has_key (AList.update k v d) k' = (k' = k \<or> has_key d k')"
  by (simp add: has_key_def update_conv')

lemma has_key_delete: "has_key (AList.delete k d) k' = (k' \<noteq> k \<and> has_key d k')"
  by (simp add: has_key_def delete_conv')

text \<open>
  C3. The claim: when a position is stored for the instrument and the incoming one has a
  non-zero quantity different from the stored one, the stored position is replaced, the
  pending marker is cleared and one \<open>POSITION_UPDATE\<close> is published. The code tests the
  key only, never the equality its comment announces: with ten units of AAPL stored and
  twenty incoming, \<open>update_positions\<close> returns at once. The ten units stay, the marker
  stays, nothing is published.
\<close>

theorem update_positions_differing_ignored:
  "update_positions aapl \<lparr>pos_quantity = 20, avg_cost = 5\<rparr> holding_aapl = holding_aapl"
  by (simp add: update_positions_def aapl_def has_key_def holding_aapl_def
      PortfolioServer_init_def Let_def)

text \<open>
  C4. The claim: no stored position has quantity 0; a zero-quantity update removes an
  existing position and does nothing to the mapping when there is none. The removal
  holds, but with no position for the instrument the code stores whatever comes in: on
  the fresh server a zero-quantity position for AAPL ends up in the mapping, and a
  \<open>POSITION_UPDATE\<close> is published for it.
\<close>

theorem update_positions_stores_zero:
  "update_positions aapl \<lparr>pos_quantity = 0, avg_cost = 0\<rparr> PortfolioServer_init
     = PortfolioServer_init
         \<lparr>positions := [(''AAPL'', \<lparr>pos_quantity = 0, avg_cost = 0\<rparr>)],
          notified := [POSITION_UPDATE]\<rparr>"
  by (simp add: update_positions_def aapl_def has_key_def PortfolioServer_init_def notify_def
      Let_def)

text \<open>
  C5. For any order id: \<open>update_orders\<close> with a status other than \<open>Filled\<close> and
  \<open>Cancelled\<close>, then with \<open>Filled\<close>, leaves the id out of the active orders and adds the
  order's instrument to the pending position updates; with \<open>Cancelled\<close> instead of
  \<open>Filled\<close> it leaves the id out as well and the pending position updates are what they
  were before the two calls.
\<close>

theorem update_orders_lifecycle:
  assumes "status opened \<noteq> ''Filled''" and "status opened \<noteq> ''Cancelled''"
    and "orderId filled = orderId opened" and "status filled = ''Filled''"
    and "orderId cancelled = orderId opened" and "status cancelled = ''Cancelled''"
  shows "map_of (active_orders (update_orders filled (update_orders opened s))) (orderId opened)
           = None
         \<and> pending_positions_update (update_orders filled (update_orders opened s))
             = insert (symbol filled) (pending_positions_update s)
         \<and> map_of (active_orders (update_orders cancelled (update_orders opened s)))
             (orderId opened) = None
         \<and> pending_positions_update (update_orders cancelled (update_orders opened s))
             = pending_positions_update s"
  using assms
  by (auto simp: update_orders_def notify_def has_key_def update_conv' delete_conv'
      split: option.splits)

theorem update_orders_lifecycle_witness:
  "map_of (active_orders (update_orders (aapl_order ''Filled'')
       (update_orders (aapl_order ''Submitted'') PortfolioServer_init))) 42 = None
   \<and> pending_positions_update (update_orders (aapl_order ''Filled'')
       (update_orders (aapl_order ''Submitted'') PortfolioServer_init)) = {''AAPL''}
   \<and> map_of (active_orders (update_orders (aapl_order ''Cancelled'')
       (update_orders (aapl_order ''Submitted'') PortfolioServer_init))) 42 = None
   \<and> pending_positions_update (update_orders (aapl_order ''Cancelled'')
       (update_orders (aapl_order ''Submitted'') PortfolioServer_init)) = {}"
  using update_orders_lifecycle [of "aapl_order ''Submitted''" "aapl_order ''Filled''"
      "aapl_order ''Cancelled''" PortfolioServer_init]
  by (simp add: aapl_order_def PortfolioServer_init_def)

text \<open>
  C9. \<open>update_orders\<close> with status \<open>Filled\<close> or \<open>Cancelled\<close> and an order id that is not
  among the active orders changes neither the active orders nor the pending position
  updates (nor anything else of the server), and publishes exactly one \<open>ORDER_UPDATE\<close>.
\<close>

theorem update_orders_unknown_terminal:
  assumes "status ao = ''Filled'' \<or> status ao = ''Cancelled''"
    and "map_of (active_orders s) (orderId ao) = None"
  shows "update_orders ao s = s\<lparr>notified := notified s @ [ORDER_UPDATE]\<rparr>"
  using assms by (auto simp: update_orders_def notify_def has_key_def)

theorem update_orders_unknown_terminal_witness:
  "update_orders (aapl_order ''Filled'') PortfolioServer_init
     = PortfolioServer_init\<lparr>notified := [ORDER_UPDATE]\<rparr>"
  using update_orders_unknown_terminal [of "aapl_order ''Filled''" PortfolioServer_init]
  by (simp add: aapl_order_def PortfolioServer_init_def)


section \<open>Orders: properties\<close>














section \<open>Order execution manager: properties\<close>

lemma build_orders_acc:
  "map (order_details to_order m ts) instrs = map Inr ocs \<Longrightarrow>
   build_orders to_order m ts instrs (acc, tot)
     = Inr (acc @ map fst ocs, tot + sum_list (map snd ocs))"
proof (induction instrs arbitrary: ocs acc tot)
  case Nil
  then show ?case by simp
next
  case (Cons trade rest)
  then obtain oc ocs' where ocs: "ocs = oc # ocs'" by (cases ocs) auto
  with Cons.prems have hd: "order_details to_order m ts trade = Inr oc"
    and tl: "map (order_details to_order m ts) rest = map Inr ocs'" by auto
  obtain od c where oc: "oc = (od, c)" by (cases oc)
  show ?case using Cons.IH[OF tl, of "acc @ [od]" "tot + c"] hd
    by (simp add: ocs oc add.assoc)
qed

lemma order_details_action:
  "map (order_details to_order m ts) instrs = map Inr ocs \<Longrightarrow>
   map (ev_action \<circ> fst) ocs = map action instrs"
proof (induction instrs arbitrary: ocs)
  case Nil
  then show ?case by simp
next
  case (Cons trade rest)
  then obtain oc ocs' where ocs: "ocs = oc # ocs'" by (cases ocs) auto
  with Cons.prems have hd: "order_details to_order m ts trade = Inr oc"
    and tl: "map (order_details to_order m ts) rest = map Inr ocs'" by auto
  from hd have "ev_action (fst oc) = action trade"
    by (auto simp: order_details_def Let_def split: option.splits sum.splits)
  with Cons.IH[OF tl] show ?case by (simp add: ocs)
qed

lemma emit_orders_ok:
  "server_capital (portfolio_server m) = Inr K \<Longrightarrow> \<forall>od \<in> set orders. post_init od = None \<Longrightarrow>
   emit_orders post_init C orders m
     = (None, m\<lparr>published := published m @ map (Pair ORDER_CREATED)
                  (filter (\<lambda>od. ev_action od \<in> {SELL, COVER} \<or> C \<le> K) orders)\<rparr>)"
proof (induction orders arbitrary: m)
  case Nil
  then show ?case by simp
next
  case (Cons od rest)
  show ?case using Cons.prems
    by (simp add: set_order_def) (auto simp: Cons.IH)
qed

lemma demo_details:
  "order_details market_to_order demo_manager 7 long_aapl = Inr (long_aapl_details, 50)"
  "order_details market_to_order demo_manager 7 sell_msft = Inr (sell_msft_details, 60)"
  by (simp_all add: order_details_def market_to_order_def demo_manager_def long_aapl_def
      sell_msft_def create_order_def MarketOrder_def demo_symbol_def order_quantity_def
      long_aapl_details_def sell_msft_details_def demo_order_def)

lemma cheap_details:
  "order_details market_to_order cheap_manager 7 long_aapl = Inr (long_aapl_details, 25)"
  "order_details market_to_order cheap_manager 7 sell_msft = Inr (sell_msft_details, 30)"
  by (simp_all add: order_details_def market_to_order_def demo_manager_def long_aapl_def
      sell_msft_def create_order_def MarketOrder_def demo_symbol_def order_quantity_def
      long_aapl_details_def sell_msft_details_def demo_order_def cheap_manager_def)

lemma demo_capital:
  "server_capital (portfolio_server demo_manager) = Inr 100"
  "server_capital (portfolio_server cheap_manager) = Inr 100"
  by (simp_all add: server_capital_def demo_manager_def PortfolioServer_init_def
      cheap_manager_def)

text \<open>
  C1, as the code has it. Take a signal for which the first loop goes through, with
  \<open>ocs\<close> the order entries and their costs, one per instruction and in order; let \<open>C\<close> be
  the sum of \<^emph>\<open>all\<close> these costs, those of the exit instructions included, and \<open>K\<close> the
  capital of the portfolio server; let every event be accepted on construction. Then
  \<open>_handle_signal\<close> returns normally and publishes, in order, one \<open>ORDER_CREATED\<close> event
  for each entry whose action is \<open>SELL\<close> or \<open>COVER\<close>, and for each other entry exactly
  when \<open>C \<le> K\<close>: the same \<open>C\<close> for every entry. Nothing else of the manager changes.
\<close>

theorem handle_signal_admission:
  assumes built: "map (order_details to_order m ts) instrs = map Inr ocs"
    and cap: "server_capital (portfolio_server m) = Inr K"
    and ok: "\<forall>oc \<in> set ocs. post_init (fst oc) = None"
  shows "handle_signal to_order post_init ts instrs m =
           (None, m\<lparr>published := published m @ map (Pair ORDER_CREATED)
              (filter (\<lambda>od. ev_action od \<in> {SELL, COVER} \<or> sum_list (map snd ocs) \<le> K)
                 (map fst ocs))\<rparr>)
         \<and> map (ev_action \<circ> fst) ocs = map action instrs"
proof -
  have "build_orders to_order m ts instrs ([], 0) = Inr (map fst ocs, sum_list (map snd ocs))"
    using build_orders_acc[OF built, of "[]" 0] by simp
  moreover have "\<forall>od \<in> set (map fst ocs). post_init od = None"
    using ok by simp
  ultimately have "handle_signal to_order post_init ts instrs m =
           (None, m\<lparr>published := published m @ map (Pair ORDER_CREATED)
              (filter (\<lambda>od. ev_action od \<in> {SELL, COVER} \<or> sum_list (map snd ocs) \<le> K)
                 (map fst ocs))\<rparr>)"
    using emit_orders_ok[OF cap, of "map fst ocs" post_init] by (simp add: handle_signal_def)
  then show ?thesis
    using order_details_action[OF built] by simp
qed

theorem handle_signal_admission_witness:
  "handle_signal market_to_order accept_all 7 [long_aapl, sell_msft] cheap_manager
     = (None, cheap_manager\<lparr>published :=
          [(ORDER_CREATED, long_aapl_details), (ORDER_CREATED, sell_msft_details)]\<rparr>)"
proof -
  have built: "map (order_details market_to_order cheap_manager 7) [long_aapl, sell_msft]
      = map Inr [(long_aapl_details, 25), (sell_msft_details, 30)]"
    by (simp add: cheap_details)
  have ok: "\<forall>oc \<in> set [(long_aapl_details, 25 :: rat), (sell_msft_details, 30)].
      accept_all (fst oc) = None"
    by (simp add: accept_all_def)
  have "published cheap_manager = []"
    by (simp add: cheap_manager_def demo_manager_def)
  then show ?thesis
    using handle_signal_admission [OF built demo_capital(2) ok]
    by (simp add: long_aapl_details_def sell_msft_details_def)
qed

text \<open>
  C1, as the claim has it, fails. With \<open>C\<close> the total cost of the entry instructions
  only: the signal below has one entry (\<open>LONG\<close>, cost 50) and one exit (\<open>SELL\<close>, cost 60)
  against a capital of 100. The entry cost is within the capital, yet the code compares
  110 with 100 and publishes the exit alone.
\<close>

theorem entry_cost_counterexample:
  "map (order_details market_to_order demo_manager 7) [long_aapl, sell_msft]
      = [Inr (long_aapl_details, 50), Inr (sell_msft_details, 60)]
   \<and> server_capital (portfolio_server demo_manager) = Inr 100
   \<and> ev_action long_aapl_details = LONG \<and> ev_action sell_msft_details = SELL
   \<and> (50 :: rat) \<le> 100
   \<and> handle_signal market_to_order accept_all 7 [long_aapl, sell_msft] demo_manager
      = (None, demo_manager\<lparr>published := [(ORDER_CREATED, sell_msft_details)]\<rparr>)"
proof -
  have "handle_signal market_to_order accept_all 7 [long_aapl, sell_msft] demo_manager
      = (None, demo_manager\<lparr>published := [(ORDER_CREATED, sell_msft_details)]\<rparr>)"
    by (simp add: handle_signal_def demo_details demo_capital set_order_def accept_all_def
        long_aapl_details_def sell_msft_details_def) (simp add: demo_manager_def)
  then show ?thesis
    by (simp add: demo_details demo_capital long_aapl_details_def sell_msft_details_def)
qed

text \<open>
  C2. A signal event one of whose instructions names an instrument that has an active
  order or is marked as pending a position update is dropped as a whole:
  \<open>handle_event\<close> returns normally and the manager, with what it has published and with
  its portfolio server, is what it was, whatever the other instructions are.
\<close>

theorem handle_event_conflict:
  assumes "\<exists>trade \<in> set (instructions e).
             (\<exists>(i, ao) \<in> set (active_orders (portfolio_server m)). symbol ao = instrument trade)
             \<or> instrument trade \<in> pending_positions_update (portfolio_server m)"
  shows "handle_event to_order post_init SIGNAL (Signal e) m = (None, m)"
proof -
  from assms
  have "list_ex (\<lambda>trade. instrument trade \<in> get_active_order_tickers (portfolio_server m))
      (instructions e)"
    unfolding list_ex_iff get_active_order_tickers_def by force
  then show ?thesis by (simp add: handle_event_def)
qed

theorem handle_event_conflict_witness:
  "handle_event market_to_order accept_all SIGNAL
     (Signal \<lparr>sig_timestamp = 7, instructions = [sell_msft, long_aapl]\<rparr>) busy_manager
   = (None, busy_manager)"
  using handle_event_conflict [of "\<lparr>sig_timestamp = 7, instructions = [sell_msft, long_aapl]\<rparr>"
      busy_manager market_to_order accept_all]
  by (simp add: busy_manager_def demo_manager_def aapl_order_def long_aapl_def)

section \<open>Market data clock: properties\<close>

declare wait_loop.simps [simp del]

subsection \<open>The other threads leave the clock's own fields alone\<close>


lemma owned_env_step: "owned (env_step a c) = owned c"
  by (cases a) (simp_all add: owned_def)

lemma owned_env_steps: "owned (env_steps acts c) = owned c"
  unfolding env_steps_def
  by (induction acts arbitrary: c) (simp_all add: owned_env_step)






lemma enter_day_fields:
  "unique_timestamps (enter_day c) = unique_timestamps c"
  "data (enter_day c) = data c"
  "current_date_index (enter_day c) = current_date_index c"
  "next_date (enter_day c) = Some (unique_timestamps c ! current_date_index c)"
  "current_day (enter_day c) = Some (unix_to_day (unique_timestamps c ! current_date_index c))"
  by (simp_all add: enter_day_def Let_def process_eod_def split: option.splits)









lemma data_stream_busy:
  "\<not> length (unique_timestamps c) \<le> current_date_index c \<Longrightarrow>
     wait_loop sched (enter_day c) = Some (Queue_busy, cw) \<Longrightarrow>
     data_stream post_init sched c = Some (Return True, cw)"
  by (simp add: data_stream_def)











subsection \<open>Rounding keeps the order\<close>

lemma pow2_pos: "0 < (2::rat) powi e"
  by simp














subsection \<open>Sorted timestamps and the expected outputs\<close>





















lemma next_date_same: "next_date c = Some x \<Longrightarrow> c\<lparr>next_date := Some x\<rparr> = c"
  by (cases c) simp

lemma enter_day_again:
  assumes "next_date c = Some (unique_timestamps c ! current_date_index c)"
    and "current_day c = Some (unix_to_day (unique_timestamps c ! current_date_index c))"
  shows "enter_day c = c"
  using assms by (simp add: enter_day_def Let_def next_date_same)

lemma owned_fields:
  "owned c' = owned c \<Longrightarrow>
     data c' = data c \<and> unique_timestamps c' = unique_timestamps c \<and> next_date c' = next_date c
     \<and> current_date_index c' = current_date_index c \<and> current_day c' = current_day c
     \<and> emitted c' = emitted c"
  by (simp add: owned_def)

lemma enter_day_output:
  "emitted (enter_day c) = emitted c
   \<or> (\<exists>d. emitted (enter_day c) = emitted c @ [Queue_put (EODEvent d)])"
  by (simp add: enter_day_def Let_def process_eod_def split: option.splits)

lemma enter_day_retry:
  "current_day c = Some (unix_to_day (unique_timestamps c ! current_date_index c)) \<Longrightarrow>
     emitted (enter_day c) = emitted c"
  by (simp add: enter_day_def Let_def)


subsection \<open>Concrete runs, step by step\<close>




lemma demo_days:
  "unix_to_day day1 = 1" "unix_to_day day2 = 2" "unix_to_day before_midnight = 2"
  "unix_to_day one_o_clock = 2" "unix_to_day last_of_day2 = 3"
  unfolding day1_def day2_def before_midnight_def one_o_clock_def last_of_day2_def
  by code_simp+














subsection \<open>With every bar accepted the clock can always be driven to the end\<close>






subsection \<open>Day boundary\<close>



subsection \<open>Exhaustion and the days next to midnight\<close>









subsection \<open>The busy queue\<close>

lemma after_waits_Nil: "after_waits [] c = c"
  by (simp add: after_waits_def)

lemma after_waits_Cons: "after_waits (w # ws) c = after_waits ws (env_steps w c)"
  by (simp add: after_waits_def)

lemma owned_after_waits: "owned (after_waits ws c) = owned c"
  by (induction ws arbitrary: c) (simp_all add: after_waits_Nil after_waits_Cons owned_env_steps)

lemma wait_loop_busy_later:
  assumes "\<forall>ws \<in> set (prefixes quiet).
             \<not> eod_event_flag (after_waits ws w)
             \<and> (ws \<noteq> [] \<longrightarrow> event_queue (after_waits ws w) = [])"
    and "event_queue (after_waits (quiet @ [busy]) w) \<noteq> []"
  shows "wait_loop (quiet @ busy # later) w = Some (Queue_busy, after_waits (quiet @ [busy]) w)"
  using assms
proof (induction quiet arbitrary: w)
  case Nil
  then show ?case
    by (simp add: wait_loop.simps[of "busy # later"] after_waits_Nil after_waits_Cons)
next
  case (Cons a quiet)
  from Cons.prems(1) have flag: "\<not> eod_event_flag w"
    by (simp add: after_waits_Nil)
  from Cons.prems(1) have rest: "\<forall>ws \<in> set (prefixes quiet).
             \<not> eod_event_flag (after_waits ws (env_steps a w))
             \<and> event_queue (after_waits ws (env_steps a w)) = []"
    by (simp add: after_waits_Cons)
  have "[] \<in> set (prefixes quiet)" by simp
  with rest have "event_queue (after_waits [] (env_steps a w)) = []" by blast
  then have empty: "event_queue (env_steps a w) = []"
    by (simp add: after_waits_Nil)
  from rest have "\<forall>ws \<in> set (prefixes quiet).
             \<not> eod_event_flag (after_waits ws (env_steps a w))
             \<and> (ws \<noteq> [] \<longrightarrow> event_queue (after_waits ws (env_steps a w)) = [])"
    by simp
  moreover from Cons.prems(2)
  have "event_queue (after_waits (quiet @ [busy]) (env_steps a w)) \<noteq> []"
    by (simp add: after_waits_Cons)
  ultimately have "wait_loop (quiet @ busy # later) (env_steps a w)
      = Some (Queue_busy, after_waits (quiet @ [busy]) (env_steps a w))"
    by (rule Cons.IH)
  with flag empty show ?case
    by (simp add: wait_loop.simps[of "a # quiet @ busy # later"] after_waits_Cons)
qed

text \<open>
  C10, as the code has it. Let the cursor be on a timestamp. After lines 139 to 151 let
  the loop find the flag clear at each of its tests and the queue empty after each of
  its first waits, any number of them, and not empty after the next wait. Then
  \<open>data_stream\<close> returns \<open>True\<close> with the cursor, the data and the timestamps as they were
  at the call; the current day is the day of the timestamp under the cursor, which is
  the day at the call only when an earlier call had entered it; no batch has been
  published: nothing has been handed out but the end-of-day event of lines 145 to 148,
  and that only when the call came with another day; and whatever the other threads do
  next, the next call finds the same timestamp with nothing left to do before the loop.
\<close>

theorem data_stream_queue_busy:
  assumes idx: "current_date_index c < length (unique_timestamps c)"
    and quiet: "\<forall>ws \<in> set (prefixes quiet).
             \<not> eod_event_flag (after_waits ws (enter_day c))
             \<and> (ws \<noteq> [] \<longrightarrow> event_queue (after_waits ws (enter_day c)) = [])"
    and queue: "event_queue (after_waits (quiet @ [busy]) (enter_day c)) \<noteq> []"
    and c': "c' = after_waits (quiet @ [busy]) (enter_day c)"
    and day: "day = unix_to_day (unique_timestamps c ! current_date_index c)"
  shows "data_stream post_init (quiet @ busy # later) c = Some (Return True, c')
       \<and> current_date_index c' = current_date_index c
       \<and> data c' = data c \<and> unique_timestamps c' = unique_timestamps c
       \<and> current_day c' = Some day
       \<and> emitted c' = emitted c @
           (case current_day c of
              None \<Rightarrow> []
            | Some d \<Rightarrow> if d = day then [] else [Queue_put (EODEvent d)])
       \<and> (current_day c = Some day \<longrightarrow> current_day c' = current_day c \<and> emitted c' = emitted c)
       \<and> (\<forall>earlier. enter_day (env_steps earlier c') = env_steps earlier c')"
proof -
  have w: "wait_loop (quiet @ busy # later) (enter_day c) = Some (Queue_busy, c')"
    unfolding c' using quiet queue by (rule wait_loop_busy_later)
  have ds: "data_stream post_init (quiet @ busy # later) c = Some (Return True, c')"
    using idx by (intro data_stream_busy[OF _ w]) simp
  have "owned c' = owned (enter_day c)" unfolding c' by (rule owned_after_waits)
  from owned_fields[OF this]
  have f: "data c' = data c" "unique_timestamps c' = unique_timestamps c"
    "current_date_index c' = current_date_index c"
    "next_date c' = Some (unique_timestamps c ! current_date_index c)"
    "current_day c' = Some day"
    "emitted c' = emitted (enter_day c)"
    by (simp_all add: enter_day_fields day)
  have again: "enter_day (env_steps earlier c') = env_steps earlier c'" for earlier
  proof (rule enter_day_again)
    from owned_fields[OF owned_env_steps[of earlier c']]
    show "next_date (env_steps earlier c')
        = Some (unique_timestamps (env_steps earlier c') ! current_date_index (env_steps earlier c'))"
      and "current_day (env_steps earlier c')
        = Some (unix_to_day (unique_timestamps (env_steps earlier c')
                  ! current_date_index (env_steps earlier c')))"
      by (simp_all add: f day)
  qed
  have out: "emitted c' = emitted c @
           (case current_day c of
              None \<Rightarrow> []
            | Some d \<Rightarrow> if d = day then [] else [Queue_put (EODEvent d)])"
    unfolding f(6)
    by (auto simp: enter_day_def Let_def process_eod_def day split: option.splits)
  have retry: "current_day c' = current_day c \<and> emitted c' = emitted c"
    if "current_day c = Some day"
    using that out by (simp add: f)
  from ds f again out retry show ?thesis by blast
qed

theorem data_stream_queue_busy_witness:
  "data_stream positive_prices [[Queue_get], [Queue_put_by_other Foreign], [Flag_set]]
       (clock_at (Some day2) 1 (Some 2) False [EODEvent 1]
          [Update_market_data batch1 day1, Queue_put (EODEvent 1)])
     = Some (Return True, clock_at (Some day2) 1 (Some 2) False [Foreign]
          [Update_market_data batch1 day1, Queue_put (EODEvent 1)])
   \<and> enter_day (env_steps [Queue_get, Flag_set]
        (clock_at (Some day2) 1 (Some 2) False [Foreign]
          [Update_market_data batch1 day1, Queue_put (EODEvent 1)]))
     = env_steps [Queue_get, Flag_set]
        (clock_at (Some day2) 1 (Some 2) False [Foreign]
          [Update_market_data batch1 day1, Queue_put (EODEvent 1)])"
proof -
  let ?c = "clock_at (Some day2) 1 (Some 2) False [EODEvent 1]
          [Update_market_data batch1 day1, Queue_put (EODEvent 1)]"
  let ?c' = "clock_at (Some day2) 1 (Some 2) False [Foreign]
          [Update_market_data batch1 day1, Queue_put (EODEvent 1)]"
  have e: "enter_day ?c = ?c"
    by (simp add: clock_at_def enter_day_def Let_def demo_days)
  have idx: "current_date_index ?c < length (unique_timestamps ?c)"
    by (simp add: clock_at_def)
  have quiet: "\<forall>ws \<in> set (prefixes [[Queue_get]]).
             \<not> eod_event_flag (after_waits ws (enter_day ?c))
             \<and> (ws \<noteq> [] \<longrightarrow> event_queue (after_waits ws (enter_day ?c)) = [])"
    unfolding e by (simp add: clock_at_def after_waits_def env_steps_def)
  have queue: "event_queue (after_waits ([[Queue_get]] @ [[Queue_put_by_other Foreign]])
                 (enter_day ?c)) \<noteq> []"
    unfolding e by (simp add: clock_at_def after_waits_def env_steps_def)
  have c': "?c' = after_waits ([[Queue_get]] @ [[Queue_put_by_other Foreign]]) (enter_day ?c)"
    unfolding e by (simp add: clock_at_def after_waits_def env_steps_def)
  have day: "(2 :: int) = unix_to_day (unique_timestamps ?c ! current_date_index ?c)"
    by (simp add: clock_at_def demo_days)
  from data_stream_queue_busy [OF idx quiet queue c' day, of positive_prices "[[Flag_set]]"]
  show ?thesis by simp
qed

text \<open>
  C10, as the claim has it, fails where the call is the first one at a timestamp of a
  new day. Lines 144 to 151 run before the loop: the call below clears the flag and puts
  the end-of-day event of 2 January itself, so it finds the flag clear and the queue
  non-empty at its first poll and returns true without publishing and without moving the
  cursor, but the current day has gone from 2 January to 3 January.
\<close>

theorem new_day_counterexample:
  "data_stream positive_prices [[]]
       (clock_at (Some day1) 1 (Some 1) True [] [Update_market_data batch1 day1])
     = Some (Return True, clock_at (Some day2) 1 (Some 2) False [EODEvent 1]
          [Update_market_data batch1 day1, Queue_put (EODEvent 1)])
   \<and> current_day (clock_at (Some day1) 1 (Some 1) True [] [Update_market_data batch1 day1])
     = Some 1
   \<and> current_day (clock_at (Some day2) 1 (Some 2) False [EODEvent 1]
          [Update_market_data batch1 day1, Queue_put (EODEvent 1)])
     = Some 2"
  by (simp add: data_stream_def clock_at_def enter_day_def Let_def demo_days process_eod_def
      wait_loop.simps env_steps_def)

end
